theory Spec2Isabelle
  imports Main "HOL-Library.Multiset"
begin

section \<open>Time values\<close>

text \<open>
  A \<^verbatim>\<open>time.Time\<close> as \<^verbatim>\<open>main.go\<close> uses it: the instant, counted in nanoseconds
  from the zero time (January 1 of year 1, 00:00:00 UTC), and the offset in seconds east
  of UTC that the value's Location has at that instant. The zero value \<^verbatim>\<open>Time{}\<close> is
  instant 0 in UTC. A \<^verbatim>\<open>time.Duration\<close> is a number of nanoseconds.
  Go keeps the instant in 64-bit seconds plus nanoseconds; every instant met here lies
  between the years 0 and 9999 or is a clock reading, so no operation below overflows
  and the integers are left unbounded.
\<close>

record Time =
  instant :: int
  offset :: int

type_synonym Duration = int

definition Second :: Duration where
  "Second = 1000000000"

definition Minute :: Duration where
  "Minute = 60 * Second"

definition Hour :: Duration where
  "Hour = 60 * Minute"

definition zeroTime :: Time where
  "zeroTime = \<lparr>instant = 0, offset = 0\<rparr>"

text \<open>\<^verbatim>\<open>t.Before(u)\<close> compares instants; the Location plays no part.\<close>

definition Before :: "Time \<Rightarrow> Time \<Rightarrow> bool" where
  "Before t u \<longleftrightarrow> instant t < instant u"

text \<open>
  \<^verbatim>\<open>t.Add(d)\<close> moves the instant and keeps the Location. The \<open>offset\<close> field of the
  result is the one of \<open>t\<close>, which is what a Location with a fixed offset gives; the
  program only compares the results of \<open>Add\<close> and \<open>Truncate\<close> or sends them as
  instants, so nothing below reads that field of such a result.
\<close>

definition Add :: "Time \<Rightarrow> Duration \<Rightarrow> Time" where
  "Add t d = t\<lparr>instant := instant t + d\<rparr>"

text \<open>
  \<^verbatim>\<open>t.Truncate(d)\<close> rounds \<open>t\<close> down to a multiple of \<open>d\<close> since the zero time, and
  returns \<open>t\<close> unchanged for \<open>d \<le> 0\<close>. It works on the absolute instant, not on the
  wall clock of the Location.
\<close>

definition Truncate :: "Time \<Rightarrow> Duration \<Rightarrow> Time" where
  "Truncate t d = (if d \<le> 0 then t else t\<lparr>instant := instant t - instant t mod d\<rparr>)"

subsection \<open>Formatting with the layout 15:04\<close>

definition digitChar :: "int \<Rightarrow> char" where
  "digitChar d = ''0123456789'' ! nat d"

definition twoDigits :: "int \<Rightarrow> string" where
  "twoDigits n = [digitChar (n div 10), digitChar (n mod 10)]"

text \<open>Seconds since the zero time on the wall clock of the value's own Location.\<close>

definition wallSeconds :: "Time \<Rightarrow> int" where
  "wallSeconds t = instant t div Second + offset t"

definition hourOf :: "Time \<Rightarrow> int" where
  "hourOf t = (wallSeconds t mod 86400) div 3600"

definition minuteOf :: "Time \<Rightarrow> int" where
  "minuteOf t = (wallSeconds t mod 3600) div 60"

text \<open>\<^verbatim>\<open>t.Format("15:04")\<close>: two-digit hour (00 to 23), a colon, two-digit minute.\<close>

definition Format_15_04 :: "Time \<Rightarrow> string" where
  "Format_15_04 t = twoDigits (hourOf t) @ '':'' @ twoDigits (minuteOf t)"

subsection \<open>Reading an RFC 3339 timestamp\<close>

text \<open>
  \<^verbatim>\<open>time.Parse\<close> is library code. The program itself is modelled with the parser as a
  parameter (next section); \<open>parseRFC3339\<close> is the parser the concrete examples use. It
  follows the library's reading of the layout \<^verbatim>\<open>2006-01-02T15:04:05Z07:00\<close>: four-digit
  year, two-digit month, day, hour, minute and second, each checked against its range
  (the day against the length of the month), an optional fraction of a second, then
  \<^verbatim>\<open>Z\<close> or a signed offset \<^verbatim>\<open>hh:mm\<close>. \<open>None\<close> stands for a returned error.
\<close>

definition digitVal :: "char \<Rightarrow> int option" where
  "digitVal c = (let n = int (of_char c) in if n < 48 \<or> 57 < n then None else Some (n - 48))"

definition isDigit :: "char \<Rightarrow> bool" where
  "isDigit c \<longleftrightarrow> digitVal c \<noteq> None"

fun parseDigits :: "string \<Rightarrow> int \<Rightarrow> int option" where
  "parseDigits [] x = Some x"
| "parseDigits (c # cs) x =
     (case digitVal c of None \<Rightarrow> None | Some d \<Rightarrow> parseDigits cs (x * 10 + d))"

definition parseUint :: "string \<Rightarrow> int \<Rightarrow> int \<Rightarrow> int option" where
  "parseUint s lo hi =
     (case parseDigits s 0 of
        None \<Rightarrow> None
      | Some x \<Rightarrow> if x < lo \<or> hi < x then None else Some x)"

text \<open>The Go slice expression \<^verbatim>\<open>s[a:b]\<close>, for \<open>a \<le> b \<le> length s\<close>.\<close>

definition slice :: "'a list \<Rightarrow> nat \<Rightarrow> nat \<Rightarrow> 'a list" where
  "slice s a b = take (b - a) (drop a s)"

definition isLeap :: "int \<Rightarrow> bool" where
  "isLeap y \<longleftrightarrow> y mod 4 = 0 \<and> (y mod 100 \<noteq> 0 \<or> y mod 400 = 0)"

definition daysIn :: "int \<Rightarrow> int \<Rightarrow> int" where
  "daysIn m y =
     (if m = 2 then (if isLeap y then 29 else 28)
      else if m = 4 \<or> m = 6 \<or> m = 9 \<or> m = 11 then 30 else 31)"

text \<open>Days from January 1 of year 1 to the given day of the proleptic Gregorian calendar.\<close>

definition daysSinceZero :: "int \<Rightarrow> int \<Rightarrow> int \<Rightarrow> int" where
  "daysSinceZero y m d =
     365 * (y - 1) + (y - 1) div 4 - (y - 1) div 100 + (y - 1) div 400
     + [0, 31, 59, 90, 120, 151, 181, 212, 243, 273, 304, 334] ! nat (m - 1)
     + (if isLeap y \<and> 2 < m then 1 else 0)
     + (d - 1)"

text \<open>
  \<^verbatim>\<open>time.Date(year, month, day, hour, min, sec, nsec, time.UTC)\<close> for arguments within
  their ranges (the parser has checked them), where Go does not normalise anything.
\<close>

definition Date :: "int \<Rightarrow> int \<Rightarrow> int \<Rightarrow> int \<Rightarrow> int \<Rightarrow> int \<Rightarrow> int \<Rightarrow> Time" where
  "Date year month day hour mn sec nsec =
     \<lparr>instant = (daysSinceZero year month day * 86400 + hour * 3600 + mn * 60 + sec) * Second + nsec,
      offset = 0\<rparr>"

text \<open>
  The fraction of a second: a period and at least one digit. Digits beyond the ninth
  are dropped. Returns the nanoseconds and the rest of the input.
\<close>

definition parseFraction :: "string \<Rightarrow> int \<times> string" where
  "parseFraction r =
     (if 2 \<le> length r \<and> r ! 0 = CHR ''.'' \<and> isDigit (r ! 1)
      then (let ds = takeWhile isDigit (tl r); ds9 = take 9 ds
            in (fold (\<lambda>c x. x * 10 + (int (of_char c) - 48)) ds9 0 * 10 ^ (9 - length ds9),
                drop (1 + length ds) r))
      else (0, r))"

text \<open>
  The zone: \<^verbatim>\<open>Z\<close> leaves the time in UTC; an offset moves the instant back by the offset
  and gives the value a Location with that offset.
\<close>

definition parseZone :: "Time \<Rightarrow> string \<Rightarrow> Time option" where
  "parseZone t r =
     (if length r = 1 \<and> r ! 0 = CHR ''Z'' then Some t
      else if length r \<noteq> 6 then None
      else case parseUint (slice r 1 3) 0 23 of
        None \<Rightarrow> None
      | Some hr \<Rightarrow>
         (case parseUint (slice r 4 6) 0 59 of
            None \<Rightarrow> None
          | Some mm \<Rightarrow>
              if \<not> ((r ! 0 = CHR ''-'' \<or> r ! 0 = CHR ''+'') \<and> r ! 3 = CHR '':'') then None
              else (let zoneOffset = (if r ! 0 = CHR ''-'' then - 1 else 1) * ((hr * 60 + mm) * 60)
                    in Some \<lparr>instant = instant t - zoneOffset * Second, offset = zoneOffset\<rparr>)))"

definition parseRFC3339 :: "string \<Rightarrow> Time option" where
  "parseRFC3339 s =
     (if length s < 19 then None
      else case parseUint (slice s 0 4) 0 9999 of None \<Rightarrow> None | Some year \<Rightarrow>
       (case parseUint (slice s 5 7) 1 12 of None \<Rightarrow> None | Some month \<Rightarrow>
       (case parseUint (slice s 8 10) 1 (daysIn month year) of None \<Rightarrow> None | Some day \<Rightarrow>
       (case parseUint (slice s 11 13) 0 23 of None \<Rightarrow> None | Some hour \<Rightarrow>
       (case parseUint (slice s 14 16) 0 59 of None \<Rightarrow> None | Some mn \<Rightarrow>
       (case parseUint (slice s 17 19) 0 59 of None \<Rightarrow> None | Some sec \<Rightarrow>
          if \<not> (s ! 4 = CHR ''-'' \<and> s ! 7 = CHR ''-'' \<and> s ! 10 = CHR ''T''
                \<and> s ! 13 = CHR '':'' \<and> s ! 16 = CHR '':'') then None
          else (case parseFraction (drop 19 s) of
                  (nsec, rest) \<Rightarrow> parseZone (Date year month day hour mn sec nsec) rest)))))))"

section \<open>Events and the formatter of \<^verbatim>\<open>run\<close>\<close>

text \<open>
  Of a \<^verbatim>\<open>calendar.Event\<close> the program reads \<^verbatim>\<open>Start.DateTime\<close> (a string) and
  \<^verbatim>\<open>Summary\<close>. Events come from the service, which always fills in \<^verbatim>\<open>Start\<close>; an
  all-day event has an empty \<^verbatim>\<open>Start.DateTime\<close>.
\<close>

record calendar_Event =
  Start_DateTime :: string
  Summary :: string

text \<open>
  Modelled from the spec: the declaration of \<^verbatim>\<open>BarItem\<close> is not in \<^verbatim>\<open>main.go\<close>. Per
  the spec it is the pair of a display text and a tooltip; \<^verbatim>\<open>BarItem{Text: ""}\<close> leaves
  the tooltip at the empty string.
\<close>

record BarItem =
  Text :: string
  Tooltip :: string

text \<open>
  \<^verbatim>\<open>time.Parse(time.RFC3339, s)\<close> is library code: the formatter takes it as the
  parameter \<open>parse\<close>, with \<open>None\<close> for a returned error. The program drops the error
  (\<^verbatim>\<open>start, _ := time.Parse(...)\<close>) and goes on with the returned value, which is the
  zero time whenever \<^verbatim>\<open>time.Parse\<close> reports an error.
\<close>

definition startOf :: "(string \<Rightarrow> Time option) \<Rightarrow> calendar_Event \<Rightarrow> Time" where
  "startOf parse e = (case parse (Start_DateTime e) of Some t \<Rightarrow> t | None \<Rightarrow> zeroTime)"

text \<open>The closure given to \<^verbatim>\<open>sort.Slice\<close> (lines 171 to 175).\<close>

definition less_start :: "(string \<Rightarrow> Time option) \<Rightarrow> calendar_Event \<Rightarrow> calendar_Event \<Rightarrow> bool" where
  "less_start parse a b \<longleftrightarrow> Before (startOf parse a) (startOf parse b)"

text \<open>\<^verbatim>\<open>fmt.Sprintf("%s %s\n", start.Format("15:04"), e.Summary)\<close>\<close>

definition eventLine :: "(string \<Rightarrow> Time option) \<Rightarrow> calendar_Event \<Rightarrow> string" where
  "eventLine parse e = Format_15_04 (startOf parse e) @ '' '' @ Summary e @ [CHR 0x0A]"

text \<open>
  The loop of lines 186 to 193, from index \<open>i\<close> on, over the events not yet visited.
  \<open>next\<close> is the pointer \<^verbatim>\<open>next\<close> (\<open>None\<close> for nil) and \<open>alt\<close> the string built so
  far. \<^verbatim>\<open>time.Now()\<close> is read anew in each iteration that still has \<^verbatim>\<open>next == nil\<close>:
  \<open>clk i\<close> is the reading in iteration \<open>i\<close>.
\<close>

fun scanEvents :: "(string \<Rightarrow> Time option) \<Rightarrow> (nat \<Rightarrow> Time) \<Rightarrow> nat \<Rightarrow> calendar_Event list
    \<Rightarrow> calendar_Event option \<Rightarrow> string \<Rightarrow> calendar_Event option \<times> string" where
  "scanEvents parse clk i [] next alt = (next, alt)"
| "scanEvents parse clk i (e # es) next alt =
     scanEvents parse clk (Suc i) es
       (if next = None \<and> Before (clk i) (Add (startOf parse e) (5 * Minute)) then Some e else next)
       (alt @ eventLine parse e)"

datatype panic = NilPointerDereference

text \<open>
  Lines 177 to 199 without the write: the value handed to the JSON encoder, or the panic
  of \<^verbatim>\<open>next.Start.DateTime\<close> on a nil \<^verbatim>\<open>next\<close>.
\<close>

definition formatEvents :: "(string \<Rightarrow> Time option) \<Rightarrow> (nat \<Rightarrow> Time) \<Rightarrow> calendar_Event list
    \<Rightarrow> panic + BarItem" where
  "formatEvents parse clk items =
     (if length items = 0 then Inr \<lparr>Text = [], Tooltip = []\<rparr>
      else case scanEvents parse clk 0 items None [] of
             (None, alt) \<Rightarrow> Inl NilPointerDereference
           | (Some nxt, alt) \<Rightarrow>
               Inr \<lparr>Text = Format_15_04 (startOf parse nxt) @ '' '' @ Summary nxt, Tooltip = alt\<rparr>)"

text \<open>
  \<^verbatim>\<open>sort.Slice\<close> is library code too. Its contract: the slice is rearranged (same
  elements, same multiplicities) so that no element is less than an earlier one; ``the
  sort is not guaranteed to be stable''. \<open>sortSlice_result lt xs ys\<close> says that \<open>ys\<close> is
  a result the contract allows for the slice \<open>xs\<close>.
\<close>

definition sortSlice_result :: "('a \<Rightarrow> 'a \<Rightarrow> bool) \<Rightarrow> 'a list \<Rightarrow> 'a list \<Rightarrow> bool" where
  "sortSlice_result lt xs ys \<longleftrightarrow> mset ys = mset xs \<and> sorted_wrt (\<lambda>a b. \<not> lt b a) ys"

section \<open>The commands\<close>

text \<open>
  Errors: one made by a library (named by its message), \<^verbatim>\<open>errs.Wrap(err)\<close>, and
  \<^verbatim>\<open>errs.Errorf(format, ..., err)\<close>.
\<close>

datatype error = Err string | Wrap error | Errorf string error

text \<open>
  How a command function ends: it returns nil or an error to the dispatcher, or
  \<^verbatim>\<open>log.Fatalf\<close> logs a message and ends the process inside the call, or the Go runtime
  panics.
\<close>

datatype result = Return "error option" | Fatalf string error | Panic panic

datatype 'a call = Value 'a | Failed error | Fatal string error

datatype Config = OAuth2Config string

record Token =
  AccessToken :: string
  RefreshToken :: string
  Expiry :: Time

text \<open>
  What the commands meet outside the program, one field per call of a library or of the
  operating system: the result of reading each of the two files below the configuration
  directory, the decoders, the calendar service, the clock, standard input and standard
  output. \<open>Scan k\<close> is the result of the \<open>k\<close>-th \<^verbatim>\<open>fmt.Scan(&authCode)\<close> of the process,
  counted from 0.
\<close>

record World =
  credentials_json :: "error + string"
  ConfigFromJSON :: "string \<Rightarrow> error + Config"
  token_json :: "error + string"
  Unmarshal_Token :: "string \<Rightarrow> Token \<times> error option"
  NewService :: "Config \<Rightarrow> Token \<Rightarrow> error option"
  Events_List :: "string \<Rightarrow> Time \<Rightarrow> Time \<Rightarrow> error + calendar_Event list"
  CalendarList_List :: "error + (string \<times> string) list"
  Now :: Time
  clock :: "nat \<Rightarrow> Time"
  Parse :: "string \<Rightarrow> Time option"
  sort_Slice :: "(calendar_Event \<Rightarrow> calendar_Event \<Rightarrow> bool) \<Rightarrow> calendar_Event list \<Rightarrow> calendar_Event list"
  Encode :: "BarItem \<Rightarrow> error option"
  Scan :: "nat \<Rightarrow> error + string"
  Refresh :: "Token \<Rightarrow> error + Token"
  Exchange :: "string \<Rightarrow> error + Token"
  Marshal_Token :: "Token \<Rightarrow> error + string"
  WriteFile_token_json :: "string \<Rightarrow> error option"

text \<open>\<^verbatim>\<open>readCredentials\<close>, lines 215 to 227.\<close>

definition readCredentials :: "World \<Rightarrow> Config call" where
  "readCredentials w =
     (case credentials_json w of
        Inl err \<Rightarrow> Failed (Errorf ''Couldn't read credentials file from %s: %v'' err)
      | Inr content \<Rightarrow>
          (case ConfigFromJSON w content of
             Inl err \<Rightarrow> Fatal ''Couldn't parse configuration: %v'' err
           | Inr config \<Rightarrow> Value config))"

text \<open>
  \<^verbatim>\<open>readToken\<close>, lines 202 to 213: the token pointer is never nil, also when an error
  comes with it.
\<close>

definition readToken :: "World \<Rightarrow> Token \<times> error option" where
  "readToken w =
     (case token_json w of
        Inl err \<Rightarrow> (\<lparr>AccessToken = [], RefreshToken = [], Expiry = zeroTime\<rparr>, Some (Wrap err))
      | Inr content \<Rightarrow>
          (case Unmarshal_Token w content of
             (t, Some err) \<Rightarrow> (t, Some (Wrap err))
           | (t, None) \<Rightarrow> (t, None)))"

text \<open>
  Lines 164 and 165: the bounds \<^verbatim>\<open>from\<close> and \<^verbatim>\<open>to\<close> of the query, from the clock
  reading \<^verbatim>\<open>time.Now()\<close>.
\<close>

definition queryWindow :: "Time \<Rightarrow> Time \<times> Time" where
  "queryWindow now =
     (let fromT = Truncate now (Hour * 24);
          toT = Add fromT (Hour * 24)
      in (fromT, toT))"

text \<open>
  \<^verbatim>\<open>run\<close>, lines 147 to 200. The first component is what reached standard output: the
  values the JSON encoder wrote. The bounds go to the service as RFC 3339 strings, which
  name the same instants.
\<close>

definition run :: "World \<Rightarrow> string \<Rightarrow> BarItem list \<times> result" where
  "run w calId =
     (case readCredentials w of
        Failed err \<Rightarrow> ([], Return (Some (Wrap err)))
      | Fatal msg err \<Rightarrow> ([], Fatalf msg err)
      | Value config \<Rightarrow>
         (case readToken w of
            (token, Some err) \<Rightarrow> ([], Return (Some err))
          | (token, None) \<Rightarrow>
             (case NewService w config token of
                Some err \<Rightarrow> ([], Return (Some (Wrap err)))
              | None \<Rightarrow>
                 (case queryWindow (Now w) of (fromT, toT) \<Rightarrow>
                  case Events_List w calId fromT toT of
                       Inl err \<Rightarrow> ([], Return (Some (Wrap err)))
                     | Inr items \<Rightarrow>
                        (case formatEvents (Parse w) (clock w)
                                (sort_Slice w (less_start (Parse w)) items) of
                           Inl p \<Rightarrow> ([], Panic p)
                         | Inr item \<Rightarrow>
                            (case Encode w item of
                               Some err \<Rightarrow> ([], Return (Some err))
                             | None \<Rightarrow> ([item], Return None)))))))"

text \<open>\<^verbatim>\<open>list\<close>, lines 116 to 140; the first component is the lines printed.\<close>

definition list_calendars :: "World \<Rightarrow> string list \<times> result" where
  "list_calendars w =
     (case readCredentials w of
        Failed err \<Rightarrow> ([], Return (Some (Wrap err)))
      | Fatal msg err \<Rightarrow> ([], Fatalf msg err)
      | Value config \<Rightarrow>
         (case readToken w of
            (token, Some err) \<Rightarrow> ([], Return (Some err))
          | (token, None) \<Rightarrow>
             (case NewService w config token of
                Some err \<Rightarrow> ([], Return (Some (Wrap err)))
              | None \<Rightarrow>
                 (case CalendarList_List w of
                    Inl err \<Rightarrow> ([], Return (Some (Wrap err)))
                  | Inr cals \<Rightarrow>
                      (map (\<lambda>(cid, description). cid @ '' '' @ description @ [CHR 0x0A]) cals,
                       Return None)))))"

text \<open>
  \<^verbatim>\<open>token.Valid()\<close> of the oauth2 library, on a pointer that may be nil: a token with
  an access token that has not expired; a token with the zero \<open>Expiry\<close> never expires,
  any other one expires ten seconds before its \<open>Expiry\<close>.
\<close>

definition Valid :: "Token option \<Rightarrow> Time \<Rightarrow> bool" where
  "Valid tp now =
     (case tp of
        None \<Rightarrow> False
      | Some t \<Rightarrow> AccessToken t \<noteq> []
          \<and> \<not> (instant (Expiry t) \<noteq> 0 \<and> Before (Add (Expiry t) (- (10 * Second))) now))"

text \<open>
  What \<^verbatim>\<open>setup\<close> does, in order: a line printed, a code read from standard input, a
  call of \<^verbatim>\<open>config.Exchange\<close> with a code, a refresh of the token, the file
  \<^verbatim>\<open>token.json\<close> written with the given bytes.
\<close>

datatype effect =
  PrintError error
  | PrintAuthCodeURL
  | ScanCode
  | ExchangeCode string
  | RefreshCall
  | WriteToken string

text \<open>\<^verbatim>\<open>json.Marshal(token)\<close> on the pointer \<^verbatim>\<open>token\<close>: a nil pointer encodes as \<^verbatim>\<open>null\<close>.\<close>

definition json_Marshal :: "World \<Rightarrow> Token option \<Rightarrow> error + string" where
  "json_Marshal w tp = (case tp of None \<Rightarrow> Inr ''null'' | Some t \<Rightarrow> Marshal_Token w t)"

text \<open>Lines 101 to 108: encode the token of the inner block and write the file.\<close>

definition persistToken :: "World \<Rightarrow> effect list \<Rightarrow> Token option \<Rightarrow> effect list \<times> result" where
  "persistToken w done tp =
     (case json_Marshal w tp of
        Inl err \<Rightarrow> (done, Return (Some (Wrap err)))
      | Inr tokenBytes \<Rightarrow>
          (case WriteFile_token_json w tokenBytes of
             Some err \<Rightarrow> (done, Return (Some (Wrap err)))
           | None \<Rightarrow> (done @ [WriteToken tokenBytes], Return None)))"

text \<open>
  Lines 90 to 108. \<^verbatim>\<open>config.Exchange\<close> returns a nil token with its error. After a
  failed exchange the second \<^verbatim>\<open>fmt.Scan\<close> reads a code into \<^verbatim>\<open>authCode\<close>, and control
  goes on to \<^verbatim>\<open>json.Marshal(token)\<close> with the token of the failed exchange.
\<close>

definition authorize :: "World \<Rightarrow> effect list \<Rightarrow> effect list \<times> result" where
  "authorize w done =
     (case Scan w 0 of
        Inl err \<Rightarrow> (done @ [PrintAuthCodeURL, ScanCode], Return (Some (Wrap err)))
      | Inr authCode \<Rightarrow>
          (case Exchange w authCode of
             Inr token \<Rightarrow>
               persistToken w (done @ [PrintAuthCodeURL, ScanCode, ExchangeCode authCode]) (Some token)
           | Inl err \<Rightarrow>
               (case Scan w 1 of
                  Inl err2 \<Rightarrow>
                    (done @ [PrintAuthCodeURL, ScanCode, ExchangeCode authCode, ScanCode],
                     Return (Some (Wrap err2)))
                | Inr authCode2 \<Rightarrow>
                    persistToken w
                      (done @ [PrintAuthCodeURL, ScanCode, ExchangeCode authCode, ScanCode]) None)))"

text \<open>
  \<^verbatim>\<open>setup\<close>, lines 71 to 114 (\<open>setup\<close> is a keyword of Isabelle, hence the name
  \<open>setup_cmd\<close>). The error of \<^verbatim>\<open>readToken\<close> is dropped (line 78). The
  clock readings of one call are taken to be the one instant \<open>Now w\<close>.
\<close>

definition setup_cmd :: "World \<Rightarrow> effect list \<times> result" where
  "setup_cmd w =
     (case readCredentials w of
        Failed err \<Rightarrow> ([], Return (Some (Wrap err)))
      | Fatal msg err \<Rightarrow> ([], Fatalf msg err)
      | Value config \<Rightarrow>
         (let token = (fst (readToken w))\<lparr>Expiry := Add (Now w) (- Hour)\<rparr>
          in if Valid (Some token) (Now w) then ([], Return None)
             else
              (case (if RefreshToken token \<noteq> []
                     then (case Refresh w token of
                             Inl err \<Rightarrow> ([RefreshCall, PrintError err], None)
                           | Inr token' \<Rightarrow> ([RefreshCall], Some token'))
                     else ([], Some token)) of
                 (done, tp) \<Rightarrow>
                   if Valid tp (Now w) then (done, Return None) else authorize w done)))"

text \<open>
  \<^verbatim>\<open>main\<close>, lines 23 to 61, once cobra has picked the subcommand: the exit status of the
  process and the error \<^verbatim>\<open>main\<close> itself logged, if any. \<^verbatim>\<open>log.Fatalf\<close> exits with
  status 1, a panic that nothing recovers with status 2.
\<close>

datatype command = Run string | Setup | List

definition exitOf :: "result \<Rightarrow> nat \<times> error option" where
  "exitOf r =
     (case r of
        Return None \<Rightarrow> (0, None)
      | Return (Some err) \<Rightarrow> (1, Some err)
      | Fatalf msg err \<Rightarrow> (1, None)
      | Panic p \<Rightarrow> (2, None))"

definition main :: "World \<Rightarrow> command \<Rightarrow> nat \<times> error option" where
  "main w c =
     (case c of
        Run calId \<Rightarrow> exitOf (snd (run w calId))
      | Setup \<Rightarrow> exitOf (snd (setup_cmd w))
      | List \<Rightarrow> exitOf (snd (list_calendars w)))"

section \<open>Concrete inputs\<close>

text \<open>
  Insertion sort as \<^verbatim>\<open>sort.Slice\<close> runs it on a short slice: each element moves left
  while it is less than its left neighbour. \<open>bubbleLeft\<close> works on the sorted prefix in
  reverse, so that the neighbour comes first.
\<close>

fun bubbleLeft :: "('a \<Rightarrow> 'a \<Rightarrow> bool) \<Rightarrow> 'a \<Rightarrow> 'a list \<Rightarrow> 'a list" where
  "bubbleLeft lt x [] = [x]"
| "bubbleLeft lt x (y # ys) = (if lt x y then y # bubbleLeft lt x ys else x # y # ys)"

definition insertionSort :: "('a \<Rightarrow> 'a \<Rightarrow> bool) \<Rightarrow> 'a list \<Rightarrow> 'a list" where
  "insertionSort lt xs = rev (foldl (\<lambda>done x. bubbleLeft lt x done) [] xs)"

definition event :: "string \<Rightarrow> string \<Rightarrow> calendar_Event" where
  "event dateTime summary = \<lparr>Start_DateTime = dateTime, Summary = summary\<rparr>"

text \<open>
  A world in which every call succeeds: the service returns \<open>items\<close>, every clock
  reading is \<open>now\<close>, the timestamps are read by \<open>parseRFC3339\<close>, the sort is insertion
  sort, the stored token has a refresh token that the server no longer accepts, and the
  user types the code \<^verbatim>\<open>bad\<close>, which the server rejects, and then the code \<^verbatim>\<open>good\<close>.
\<close>

definition demoWorld :: "calendar_Event list \<Rightarrow> Time \<Rightarrow> World" where
  "demoWorld items now =
     \<lparr>credentials_json = Inr ''client'',
      ConfigFromJSON = (\<lambda>content. Inr (OAuth2Config content)),
      token_json = Inr ''token'',
      Unmarshal_Token = (\<lambda>content.
        (\<lparr>AccessToken = ''access'', RefreshToken = ''refresh'', Expiry = zeroTime\<rparr>, None)),
      NewService = (\<lambda>config token. None),
      Events_List = (\<lambda>calId fromT toT. Inr items),
      CalendarList_List = Inr [(''primary'', ''Mine'')],
      Now = now,
      clock = (\<lambda>i. now),
      Parse = parseRFC3339,
      sort_Slice = insertionSort,
      Encode = (\<lambda>item. None),
      Scan = (\<lambda>k. if k = 0 then Inr ''bad'' else Inr ''good''),
      Refresh = (\<lambda>token. Inl (Err ''invalid_grant'')),
      Exchange = (\<lambda>code.
        if code = ''good''
        then Inr \<lparr>AccessToken = ''fresh'', RefreshToken = ''refresh'', Expiry = Add now Hour\<rparr>
        else Inl (Err ''invalid_grant'')),
      Marshal_Token = (\<lambda>token. Inr (AccessToken token)),
      WriteFile_token_json = (\<lambda>tokenBytes. None)\<rparr>"

text \<open>A day whose two events are over at noon: one at 09:00 UTC and an all-day event.\<close>

definition pastEvents :: "calendar_Event list" where
  "pastEvents = [event ''2024-01-01T09:00:00Z'' ''Standup'', event [] ''Holiday'']"

definition noon :: Time where
  "noon = Date 2024 1 1 12 0 0 0"

text \<open>One event at 10:00 UTC.\<close>

definition graceEvent :: calendar_Event where
  "graceEvent = event ''2024-01-01T10:00:00Z'' ''A''"

text \<open>
  A day in the zone two hours east of UTC, as the service returned it and in the order
  of the start times.
\<close>

definition dayEvents :: "calendar_Event list" where
  "dayEvents = [event ''2024-01-01T14:30:00+02:00'' ''Review'',
                event ''2024-01-01T09:00:00+02:00'' ''Standup'',
                event ''2024-01-01T09:00:00+02:00'' ''Standup'']"

definition sortedDayEvents :: "calendar_Event list" where
  "sortedDayEvents = [event ''2024-01-01T09:00:00+02:00'' ''Standup'',
                      event ''2024-01-01T09:00:00+02:00'' ''Standup'',
                      event ''2024-01-01T14:30:00+02:00'' ''Review'']"

text \<open>The two events of a morning, as the service returned them.\<close>

definition twoEvents :: "calendar_Event list" where
  "twoEvents = [event ''2024-01-01T10:01:00Z'' ''B'', event ''2024-01-01T10:00:00Z'' ''A'']"

text \<open>The same world with the clock readings \<open>clk\<close> in the loop.\<close>

definition clockWorld :: "calendar_Event list \<Rightarrow> (nat \<Rightarrow> Time) \<Rightarrow> World" where
  "clockWorld items clk = (demoWorld items noon)\<lparr>clock := clk\<rparr>"




section \<open>Properties\<close>

lemma Format_zeroTime: "Format_15_04 zeroTime = ''00:00''"
  by (simp add: Format_15_04_def twoDigits_def digitChar_def hourOf_def minuteOf_def
      wallSeconds_def zeroTime_def Second_def)

lemmas parse_defs = parseRFC3339_def parseUint_def slice_def digitVal_def daysIn_def
  isLeap_def parseFraction_def isDigit_def parseZone_def

lemmas date_defs = Date_def daysSinceZero_def isLeap_def Second_def Minute_def Hour_def

lemmas world_defs = demoWorld_def readCredentials_def readToken_def queryWindow_def

subsection \<open>The loop\<close>

lemma scanEvents_snd:
  "snd (scanEvents parse clk i es nxt alt) = alt @ concat (map (eventLine parse) es)"
  by (induction es arbitrary: i nxt alt) simp_all

lemma scanEvents_fst_None:
  "(\<And>j e. e \<in> set es \<Longrightarrow> \<not> Before (clk j) (Add (startOf parse e) (5 * Minute)))
   \<Longrightarrow> fst (scanEvents parse clk i es None alt) = None"
  by (induction es arbitrary: i alt) simp_all

lemma formatEvents_None:
  assumes "items \<noteq> []"
    and "\<And>i e. e \<in> set items \<Longrightarrow> \<not> Before (clk i) (Add (startOf parse e) (5 * Minute))"
  shows "formatEvents parse clk items = Inl NilPointerDereference"
proof -
  have "fst (scanEvents parse clk 0 items None []) = None"
    using assms(2) by (rule scanEvents_fst_None)
  with assms(1) show ?thesis
    by (cases "scanEvents parse clk 0 items None []") (simp add: formatEvents_def)
qed

subsection \<open>The sort\<close>

lemma sortSlice_result_set: "sortSlice_result lt xs ys \<Longrightarrow> set ys = set xs"
  by (auto simp: sortSlice_result_def dest: mset_eq_setD)

lemma sortSlice_result_Nil: "sortSlice_result lt [] ys \<Longrightarrow> ys = []"
  by (simp add: sortSlice_result_def)

lemma sortSlice_result_sorted:
  "sortSlice_result (less_start parse) xs ys
   \<Longrightarrow> sorted (map (\<lambda>e. instant (startOf parse e)) ys)"
  by (simp add: sortSlice_result_def less_start_def Before_def sorted_map not_less)

subsection \<open>From the fetched events to the output\<close>

lemma run_formats:
  assumes "readCredentials w = Value config" and "readToken w = (token, None)"
    and "NewService w config token = None"
    and "queryWindow (Now w) = (fromT, toT)" and "Events_List w calId fromT toT = Inr items"
  shows "run w calId =
     (case formatEvents (Parse w) (clock w) (sort_Slice w (less_start (Parse w)) items) of
        Inl p \<Rightarrow> ([], Panic p)
      | Inr item \<Rightarrow>
          (case Encode w item of
             Some err \<Rightarrow> ([], Return (Some err))
           | None \<Rightarrow> ([item], Return None)))"
  using assms by (simp add: run_def)

lemma parse_0900: "parseRFC3339 ''2024-01-01T09:00:00Z'' = Some (Date 2024 1 1 9 0 0 0)"
  by (simp add: parse_defs)

lemma parse_empty: "parseRFC3339 [] = None"
  by (simp add: parseRFC3339_def)

lemma sorted_pastEvents:
  "insertionSort (less_start parseRFC3339) pastEvents =
     [event [] ''Holiday'', event ''2024-01-01T09:00:00Z'' ''Standup'']"
  by (simp add: pastEvents_def insertionSort_def less_start_def startOf_def event_def
      parse_0900 parse_empty Before_def zeroTime_def date_defs)

subsection \<open>No event left to select\<close>

text \<open>
  Claim C1. When the service returns a non-empty list and every clock reading of the
  loop is at or after the start plus five minutes of every event, the loop leaves
  \<^verbatim>\<open>next\<close> nil, the read of \<^verbatim>\<open>next.Start.DateTime\<close> in line 195 panics, nothing is
  written to standard output, and the process ends with the status of a panic.
\<close>

theorem run_without_upcoming_event_panics:
  assumes "readCredentials w = Value config" and "readToken w = (token, None)"
    and "NewService w config token = None"
    and "queryWindow (Now w) = (fromT, toT)" and "Events_List w calId fromT toT = Inr items"
    and srt: "sortSlice_result (less_start (Parse w)) items
                (sort_Slice w (less_start (Parse w)) items)"
    and nonempty: "items \<noteq> []"
    and past: "\<forall>i. \<forall>e \<in> set items.
                 \<not> Before (clock w i) (Add (startOf (Parse w) e) (5 * Minute))"
  shows "fst (scanEvents (Parse w) (clock w) 0
               (sort_Slice w (less_start (Parse w)) items) None []) = None
       \<and> run w calId = ([], Panic NilPointerDereference)
       \<and> main w (Run calId) = (2, None)"
proof -
  let ?ys = "sort_Slice w (less_start (Parse w)) items"
  have s: "set ?ys = set items"
    using srt by (rule sortSlice_result_set)
  then have ne: "?ys \<noteq> []"
    using nonempty by auto
  have late: "\<And>i e. e \<in> set ?ys
      \<Longrightarrow> \<not> Before (clock w i) (Add (startOf (Parse w) e) (5 * Minute))"
    using past s by blast
  have sel: "fst (scanEvents (Parse w) (clock w) 0 ?ys None []) = None"
    using late by (rule scanEvents_fst_None)
  have f: "formatEvents (Parse w) (clock w) ?ys = Inl NilPointerDereference"
    using ne late by (rule formatEvents_None)
  have r: "run w calId = ([], Panic NilPointerDereference)"
    using run_formats [OF assms(1-5)] f by simp
  show ?thesis
    using sel r by (simp add: main_def exitOf_def)
qed

theorem run_without_upcoming_event_panics_witness:
  "pastEvents \<noteq> []
   \<and> run (demoWorld pastEvents noon) ''primary'' = ([], Panic NilPointerDereference)
   \<and> main (demoWorld pastEvents noon) (Run ''primary'') = (2, None)"
proof -
  let ?w = "demoWorld pastEvents noon"
  have h1: "readCredentials ?w = Value (OAuth2Config ''client'')"
    by (simp add: world_defs)
  have h2: "readToken ?w =
      (\<lparr>AccessToken = ''access'', RefreshToken = ''refresh'', Expiry = zeroTime\<rparr>, None)"
    by (simp add: world_defs)
  have h3: "NewService ?w (OAuth2Config ''client'')
      \<lparr>AccessToken = ''access'', RefreshToken = ''refresh'', Expiry = zeroTime\<rparr> = None"
    by (simp add: world_defs)
  have h4: "queryWindow (Now ?w) = (fst (queryWindow noon), snd (queryWindow noon))"
    by (simp add: world_defs)
  have h5: "Events_List ?w ''primary'' (fst (queryWindow noon)) (snd (queryWindow noon))
      = Inr pastEvents"
    by (simp add: world_defs)
  have h6: "sortSlice_result (less_start (Parse ?w)) pastEvents
      (sort_Slice ?w (less_start (Parse ?w)) pastEvents)"
    by (simp add: demoWorld_def sorted_pastEvents sortSlice_result_def)
      (simp add: pastEvents_def less_start_def startOf_def event_def parse_0900 parse_empty
        Before_def zeroTime_def date_defs)
  have h7: "pastEvents \<noteq> []"
    by (simp add: pastEvents_def)
  have h8: "\<forall>i. \<forall>e \<in> set pastEvents.
      \<not> Before (clock ?w i) (Add (startOf (Parse ?w) e) (5 * Minute))"
    by (simp add: demoWorld_def pastEvents_def startOf_def event_def parse_0900 parse_empty
        Before_def Add_def zeroTime_def noon_def date_defs)
  show ?thesis
    using run_without_upcoming_event_panics [OF h1 h2 h3 h4 h5 h6 h7 h8] h7 by simp
qed

subsection \<open>The selection rule\<close>

lemma parse_1000: "parseRFC3339 ''2024-01-01T10:00:00Z'' = Some (Date 2024 1 1 10 0 0 0)"
  by (simp add: parse_defs)

lemma parse_1001: "parseRFC3339 ''2024-01-01T10:01:00Z'' = Some (Date 2024 1 1 10 1 0 0)"
  by (simp add: parse_defs)

lemma sorted_twoEvents:
  "insertionSort (less_start parseRFC3339) twoEvents =
     [event ''2024-01-01T10:00:00Z'' ''A'', event ''2024-01-01T10:01:00Z'' ''B'']"
  by (simp add: twoEvents_def insertionSort_def less_start_def startOf_def event_def
      parse_1000 parse_1001 Before_def date_defs)

lemma scanEvents_fst_Some:
  "fst (scanEvents parse clk i es nxt alt) = Some x
   \<Longrightarrow> nxt = Some x \<or> (x \<in> set es \<and> (\<exists>j. Before (clk j) (Add (startOf parse x) (5 * Minute))))"
  by (induction es arbitrary: i nxt alt) (fastforce split: if_splits)+

lemma formatEvents_Some:
  assumes "fst (scanEvents parse clk 0 items None []) = Some nxt"
  shows "formatEvents parse clk items =
     Inr \<lparr>Text = Format_15_04 (startOf parse nxt) @ '' '' @ Summary nxt,
          Tooltip = concat (map (eventLine parse) items)\<rparr>"
proof -
  have ne: "items \<noteq> []"
    using assms by auto
  obtain a b where ab: "scanEvents parse clk 0 items None [] = (a, b)"
    by (cases "scanEvents parse clk 0 items None []")
  have "a = Some nxt"
    using assms ab by simp
  moreover have "b = concat (map (eventLine parse) items)"
    using scanEvents_snd [of parse clk 0 items None "[]"] ab by simp
  ultimately show ?thesis
    using ne ab by (simp add: formatEvents_def)
qed

lemma parse_0900_east:
  "parseRFC3339 ''2024-01-01T09:00:00+02:00'' =
     Some \<lparr>instant = 63839689200 * Second, offset = 7200\<rparr>"
  by (simp add: parse_defs date_defs)

lemma parse_1430_east:
  "parseRFC3339 ''2024-01-01T14:30:00+02:00'' =
     Some \<lparr>instant = 63839709000 * Second, offset = 7200\<rparr>"
  by (simp add: parse_defs date_defs)

lemma sorted_dayEvents:
  "insertionSort (less_start parseRFC3339) dayEvents = sortedDayEvents"
  by (simp add: dayEvents_def sortedDayEvents_def insertionSort_def less_start_def startOf_def
      event_def parse_0900_east parse_1430_east Before_def Second_def)

lemma scanEvents_fst_keeps:
  "fst (scanEvents parse clk k es (Some x) alt) = Some x"
  by (induction es arbitrary: k alt) simp_all

lemma scanEvents_fst_first:
  assumes "i < length es"
    and "Before (clk (k + i)) (Add (startOf parse (es ! i)) (5 * Minute))"
    and "\<forall>j<i. \<not> Before (clk (k + j)) (Add (startOf parse (es ! j)) (5 * Minute))"
  shows "fst (scanEvents parse clk k es None alt) = Some (es ! i)"
  using assms
proof (induction es arbitrary: i k alt)
  case Nil
  then show ?case by simp
next
  case (Cons e es)
  show ?case
  proof (cases i)
    case 0
    then show ?thesis
      using Cons.prems(2) by (simp add: scanEvents_fst_keeps)
  next
    case (Suc i')
    have no: "\<not> Before (clk k) (Add (startOf parse e) (5 * Minute))"
      using Cons.prems(3) [rule_format, of 0] Suc by simp
    have a: "i' < length es"
      using Cons.prems(1) Suc by simp
    have b: "Before (clk (Suc k + i')) (Add (startOf parse (es ! i')) (5 * Minute))"
      using Cons.prems(2) Suc by simp
    have c: "\<forall>j<i'. \<not> Before (clk (Suc k + j)) (Add (startOf parse (es ! j)) (5 * Minute))"
    proof (intro allI impI)
      fix j assume "j < i'"
      then show "\<not> Before (clk (Suc k + j)) (Add (startOf parse (es ! j)) (5 * Minute))"
        using Cons.prems(3) [rule_format, of "Suc j"] Suc by simp
    qed
    show ?thesis
      using Cons.IH [OF a b c] no Suc by simp
  qed
qed

lemma scanEvents_fst_no_index:
  assumes "\<forall>j<length es. \<not> Before (clk (k + j)) (Add (startOf parse (es ! j)) (5 * Minute))"
  shows "fst (scanEvents parse clk k es None alt) = None"
  using assms
proof (induction es arbitrary: k alt)
  case Nil
  then show ?case by simp
next
  case (Cons e es)
  have no: "\<not> Before (clk k) (Add (startOf parse e) (5 * Minute))"
    using Cons.prems [rule_format, of 0] by simp
  have c: "\<forall>j<length es. \<not> Before (clk (Suc k + j)) (Add (startOf parse (es ! j)) (5 * Minute))"
  proof (intro allI impI)
    fix j assume "j < length es"
    then show "\<not> Before (clk (Suc k + j)) (Add (startOf parse (es ! j)) (5 * Minute))"
      using Cons.prems [rule_format, of "Suc j"] by simp
  qed
  show ?case
    using Cons.IH [OF c] no by simp
qed

lemma formatEvents_first:
  assumes "i < length items"
    and "Before (clk i) (Add (startOf parse (items ! i)) (5 * Minute))"
    and "\<forall>j<i. \<not> Before (clk j) (Add (startOf parse (items ! j)) (5 * Minute))"
  shows "formatEvents parse clk items =
     Inr \<lparr>Text = Format_15_04 (startOf parse (items ! i)) @ '' '' @ Summary (items ! i),
          Tooltip = concat (map (eventLine parse) items)\<rparr>"
proof -
  have "fst (scanEvents parse clk 0 items None []) = Some (items ! i)"
    using scanEvents_fst_first [of i items clk 0 parse "[]"] assms by simp
  then show ?thesis
    by (rule formatEvents_Some)
qed

lemma clockWorld_fetch:
  "readCredentials (clockWorld items clk) = Value (OAuth2Config ''client'')"
  "readToken (clockWorld items clk) =
     (\<lparr>AccessToken = ''access'', RefreshToken = ''refresh'', Expiry = zeroTime\<rparr>, None)"
  "NewService (clockWorld items clk) config token = None"
  "queryWindow (Now (clockWorld items clk)) = (fst (queryWindow noon), snd (queryWindow noon))"
  "Events_List (clockWorld items clk) calId fromT toT = Inr items"
  "Parse (clockWorld items clk) = parseRFC3339"
  "sort_Slice (clockWorld items clk) = insertionSort"
  "clock (clockWorld items clk) = clk"
  "Encode (clockWorld items clk) item = None"
  by (simp_all add: clockWorld_def world_defs)

lemma sorted_graceEvent:
  "insertionSort (less_start parseRFC3339) [graceEvent] = [graceEvent]"
  by (simp add: insertionSort_def)

lemma startOf_examples:
  "startOf parseRFC3339 (event ''2024-01-01T10:00:00Z'' s) = Date 2024 1 1 10 0 0 0"
  "startOf parseRFC3339 (event ''2024-01-01T10:01:00Z'' s) = Date 2024 1 1 10 1 0 0"
  "startOf parseRFC3339 (event ''2024-01-01T09:00:00Z'' s) = Date 2024 1 1 9 0 0 0"
  "startOf parseRFC3339 (event [] s) = zeroTime"
  by (simp_all add: startOf_def event_def parse_1000 parse_1001 parse_0900 parse_empty)

lemma event_fields: "Summary (event d s) = s" "Start_DateTime (event d s) = d"
  by (simp_all add: event_def)

lemmas format_defs = Format_15_04_def twoDigits_def digitChar_def hourOf_def minuteOf_def
  wallSeconds_def

text \<open>
  Claim C4. Let \<open>ys\<close> be the slice as \<^verbatim>\<open>sort.Slice\<close> left it in \<^verbatim>\<open>run\<close>, and \<open>clock w j\<close>
  the reading of \<^verbatim>\<open>time.Now()\<close> in iteration \<open>j\<close> of the loop (one instant \<open>now\<close> is the
  special case of a clock that stands still). The event the loop selects is the first
  one, in the order of \<open>ys\<close>, whose own reading is before its start plus five minutes:
  \<^verbatim>\<open>run\<close> then hands its line and the tooltip to the encoder. When no event is within
  its window at its own reading, nothing is selected, and \<^verbatim>\<open>run\<close> panics on a non-empty
  list. The witness holds the event at 10:00 with the clock at 10:04:59 (selected) and
  at 10:05:01 (none), and two events with a clock that moves between the iterations.
\<close>

theorem next_event_is_first_within_grace:
  assumes "readCredentials w = Value config" and "readToken w = (token, None)"
    and "NewService w config token = None"
    and "queryWindow (Now w) = (fromT, toT)" and "Events_List w calId fromT toT = Inr items"
    and ys: "ys = sort_Slice w (less_start (Parse w)) items"
  shows "(i < length ys
          \<and> Before (clock w i) (Add (startOf (Parse w) (ys ! i)) (5 * Minute))
          \<and> (\<forall>j<i. \<not> Before (clock w j) (Add (startOf (Parse w) (ys ! j)) (5 * Minute)))
          \<longrightarrow> fst (scanEvents (Parse w) (clock w) 0 ys None []) = Some (ys ! i)
            \<and> run w calId =
               (case Encode w
                       \<lparr>Text = Format_15_04 (startOf (Parse w) (ys ! i)) @ '' '' @ Summary (ys ! i),
                        Tooltip = concat (map (eventLine (Parse w)) ys)\<rparr> of
                  Some err \<Rightarrow> ([], Return (Some err))
                | None \<Rightarrow>
                    ([\<lparr>Text = Format_15_04 (startOf (Parse w) (ys ! i)) @ '' '' @ Summary (ys ! i),
                       Tooltip = concat (map (eventLine (Parse w)) ys)\<rparr>], Return None)))
       \<and> ((\<forall>j<length ys. \<not> Before (clock w j) (Add (startOf (Parse w) (ys ! j)) (5 * Minute)))
          \<longrightarrow> fst (scanEvents (Parse w) (clock w) 0 ys None []) = None
            \<and> (ys \<noteq> [] \<longrightarrow> run w calId = ([], Panic NilPointerDereference)))"
proof (intro conjI impI; (elim conjE)?)
  assume i: "i < length ys"
    and b: "Before (clock w i) (Add (startOf (Parse w) (ys ! i)) (5 * Minute))"
    and n: "\<forall>j<i. \<not> Before (clock w j) (Add (startOf (Parse w) (ys ! j)) (5 * Minute))"
  show "fst (scanEvents (Parse w) (clock w) 0 ys None []) = Some (ys ! i)"
    using scanEvents_fst_first [of i ys "clock w" 0 "Parse w" "[]"] i b n by simp
  show "run w calId =
               (case Encode w
                       \<lparr>Text = Format_15_04 (startOf (Parse w) (ys ! i)) @ '' '' @ Summary (ys ! i),
                        Tooltip = concat (map (eventLine (Parse w)) ys)\<rparr> of
                  Some err \<Rightarrow> ([], Return (Some err))
                | None \<Rightarrow>
                    ([\<lparr>Text = Format_15_04 (startOf (Parse w) (ys ! i)) @ '' '' @ Summary (ys ! i),
                       Tooltip = concat (map (eventLine (Parse w)) ys)\<rparr>], Return None))"
    unfolding run_formats [OF assms(1-5), folded ys] formatEvents_first [OF i b n]
    by (simp split: option.split)
next
  assume n: "\<forall>j<length ys. \<not> Before (clock w j) (Add (startOf (Parse w) (ys ! j)) (5 * Minute))"
  show s: "fst (scanEvents (Parse w) (clock w) 0 ys None []) = None"
    using scanEvents_fst_no_index [of ys "clock w" 0 "Parse w" "[]"] n by simp
  assume ne: "ys \<noteq> []"
  have "formatEvents (Parse w) (clock w) ys = Inl NilPointerDereference"
    using s ne by (cases "scanEvents (Parse w) (clock w) 0 ys None []") (simp add: formatEvents_def)
  then show "run w calId = ([], Panic NilPointerDereference)"
    unfolding run_formats [OF assms(1-5), folded ys] by simp
qed


theorem next_event_is_first_within_grace_witness:
  "run (clockWorld twoEvents
          (\<lambda>i. if i = 0 then Date 2024 1 1 10 5 30 0 else Date 2024 1 1 10 5 45 0)) ''primary''
     = ([\<lparr>Text = ''10:01 B'',
          Tooltip = ''10:00 A'' @ [CHR 0x0A] @ ''10:01 B'' @ [CHR 0x0A]\<rparr>], Return None)
   \<and> run (clockWorld twoEvents
          (\<lambda>i. if i = 0 then Date 2024 1 1 10 5 59 999999999 else Date 2024 1 1 10 6 0 1)) ''primary''
     = ([], Panic NilPointerDereference)
   \<and> run (clockWorld [graceEvent] (\<lambda>i. Date 2024 1 1 10 4 59 0)) ''primary''
     = ([\<lparr>Text = ''10:00 A'', Tooltip = ''10:00 A'' @ [CHR 0x0A]\<rparr>], Return None)
   \<and> run (clockWorld [graceEvent] (\<lambda>i. Date 2024 1 1 10 5 1 0)) ''primary''
     = ([], Panic NilPointerDereference)"
proof -
  let ?c1 = "\<lambda>i::nat. if i = 0 then Date 2024 1 1 10 5 30 0 else Date 2024 1 1 10 5 45 0"
  let ?c2 = "\<lambda>i::nat. if i = 0 then Date 2024 1 1 10 5 59 999999999 else Date 2024 1 1 10 6 0 1"
  let ?c3 = "\<lambda>i::nat. Date 2024 1 1 10 4 59 0"
  let ?c4 = "\<lambda>i::nat. Date 2024 1 1 10 5 1 0"
  let ?ab = "[event ''2024-01-01T10:00:00Z'' ''A'', event ''2024-01-01T10:01:00Z'' ''B'']"
  note ev = startOf_examples Before_def Add_def date_defs less_Suc_eq
  have a: "run (clockWorld twoEvents ?c1) ''primary''
     = ([\<lparr>Text = ''10:01 B'',
          Tooltip = ''10:00 A'' @ [CHR 0x0A] @ ''10:01 B'' @ [CHR 0x0A]\<rparr>], Return None)"
    using next_event_is_first_within_grace [where w = "clockWorld twoEvents ?c1"
        and calId = "''primary''" and items = twoEvents and ys = ?ab and i = 1,
        OF clockWorld_fetch(1-5)]
    by (simp add: clockWorld_fetch sorted_twoEvents ev)
      (simp add: eventLine_def startOf_examples format_defs date_defs event_fields)
  have b: "run (clockWorld twoEvents ?c2) ''primary'' = ([], Panic NilPointerDereference)"
    using next_event_is_first_within_grace [where w = "clockWorld twoEvents ?c2"
        and calId = "''primary''" and items = twoEvents and ys = ?ab and i = 0,
        OF clockWorld_fetch(1-5)]
    by (simp add: clockWorld_fetch sorted_twoEvents ev)
  have c: "run (clockWorld [graceEvent] ?c3) ''primary''
     = ([\<lparr>Text = ''10:00 A'', Tooltip = ''10:00 A'' @ [CHR 0x0A]\<rparr>], Return None)"
    using next_event_is_first_within_grace [where w = "clockWorld [graceEvent] ?c3"
        and calId = "''primary''" and items = "[graceEvent]" and ys = "[graceEvent]" and i = 0,
        OF clockWorld_fetch(1-5)]
    by (simp add: clockWorld_fetch sorted_graceEvent graceEvent_def ev)
      (simp add: eventLine_def startOf_examples format_defs date_defs event_fields
        insertionSort_def)
  have d: "run (clockWorld [graceEvent] ?c4) ''primary'' = ([], Panic NilPointerDereference)"
    using next_event_is_first_within_grace [where w = "clockWorld [graceEvent] ?c4"
        and calId = "''primary''" and items = "[graceEvent]" and ys = "[graceEvent]" and i = 0,
        OF clockWorld_fetch(1-5)]
    by (simp add: clockWorld_fetch sorted_graceEvent graceEvent_def ev insertionSort_def)
  show ?thesis
    using a b c d by simp
qed

subsection \<open>The tooltip\<close>

lemma sortSlice_result_starts:
  assumes "sortSlice_result (less_start parse) xs ys"
  shows "map (\<lambda>e. instant (startOf parse e)) ys = sort (map (\<lambda>e. instant (startOf parse e)) xs)"
proof -
  have "mset (map (\<lambda>e. instant (startOf parse e)) ys) = mset (map (\<lambda>e. instant (startOf parse e)) xs)"
    using assms by (simp add: sortSlice_result_def)
  then show ?thesis
    using sortSlice_result_sorted [OF assms] by (metis properties_for_sort)
qed

text \<open>
  Claim C6. When \<^verbatim>\<open>run\<close> has fetched \<open>items\<close>, \<^verbatim>\<open>sort.Slice\<close> has kept its contract on
  the call of line 171, a next event is found (the first index \<open>i\<close> of the sorted slice
  \<open>ys\<close> within its window) and the encoder can write, \<^verbatim>\<open>run\<close> writes one value whose
  tooltip is the concatenation, over all of \<open>ys\<close> in their order, of ``HH:MM'', a blank,
  the summary and a newline: events before the selected one and the selected one are
  included. \<open>ys\<close> holds every fetched event as often as the service returned it, and its
  start times are those of the input in ascending order.
\<close>

theorem tooltip_lists_every_event_in_start_order:
  assumes "readCredentials w = Value config" and "readToken w = (token, None)"
    and "NewService w config token = None"
    and "queryWindow (Now w) = (fromT, toT)" and "Events_List w calId fromT toT = Inr items"
    and srt: "sortSlice_result (less_start (Parse w)) items
                (sort_Slice w (less_start (Parse w)) items)"
    and ys: "ys = sort_Slice w (less_start (Parse w)) items"
    and i: "i < length ys"
    and b: "Before (clock w i) (Add (startOf (Parse w) (ys ! i)) (5 * Minute))"
    and n: "\<forall>j<i. \<not> Before (clock w j) (Add (startOf (Parse w) (ys ! j)) (5 * Minute))"
    and enc: "Encode w
       \<lparr>Text = Format_15_04 (startOf (Parse w) (ys ! i)) @ '' '' @ Summary (ys ! i),
        Tooltip = concat (map (\<lambda>e. Format_15_04 (startOf (Parse w) e) @ '' '' @ Summary e
                                    @ [CHR 0x0A]) ys)\<rparr> = None"
  shows "run w calId =
           ([\<lparr>Text = Format_15_04 (startOf (Parse w) (ys ! i)) @ '' '' @ Summary (ys ! i),
              Tooltip = concat (map (\<lambda>e. Format_15_04 (startOf (Parse w) e) @ '' '' @ Summary e
                                          @ [CHR 0x0A]) ys)\<rparr>],
            Return None)
       \<and> sorted (map (\<lambda>e. instant (startOf (Parse w) e)) ys)
       \<and> mset ys = mset items
       \<and> map (\<lambda>e. instant (startOf (Parse w) e)) ys
           = sort (map (\<lambda>e. instant (startOf (Parse w) e)) items)"
proof -
  have l: "eventLine (Parse w) =
      (\<lambda>e. Format_15_04 (startOf (Parse w) e) @ '' '' @ Summary e @ [CHR 0x0A])"
    by (rule ext) (simp add: eventLine_def)
  have f: "formatEvents (Parse w) (clock w) ys =
      Inr \<lparr>Text = Format_15_04 (startOf (Parse w) (ys ! i)) @ '' '' @ Summary (ys ! i),
           Tooltip = concat (map (\<lambda>e. Format_15_04 (startOf (Parse w) e) @ '' '' @ Summary e
                                       @ [CHR 0x0A]) ys)\<rparr>"
    using formatEvents_first [OF i b n] unfolding l .
  have r: "run w calId =
           ([\<lparr>Text = Format_15_04 (startOf (Parse w) (ys ! i)) @ '' '' @ Summary (ys ! i),
              Tooltip = concat (map (\<lambda>e. Format_15_04 (startOf (Parse w) e) @ '' '' @ Summary e
                                          @ [CHR 0x0A]) ys)\<rparr>],
            Return None)"
    unfolding run_formats [OF assms(1-5), folded ys] f using enc by simp
  have s: "sortSlice_result (less_start (Parse w)) items ys"
    using srt ys by simp
  show ?thesis
    using r sortSlice_result_sorted [OF s] sortSlice_result_starts [OF s] s
    by (simp add: sortSlice_result_def)
qed

theorem tooltip_lists_every_event_in_start_order_witness:
  "run (clockWorld dayEvents (\<lambda>i. Date 2024 1 1 6 55 0 0)) ''primary'' =
     ([\<lparr>Text = ''09:00 Standup'',
        Tooltip = ''09:00 Standup'' @ [CHR 0x0A] @ ''09:00 Standup'' @ [CHR 0x0A]
                  @ ''14:30 Review'' @ [CHR 0x0A]\<rparr>], Return None)"
proof -
  let ?w = "clockWorld dayEvents (\<lambda>i. Date 2024 1 1 6 55 0 0)"
  note st = startOf_def event_fields parse_0900_east parse_1430_east
  have h6: "sortSlice_result (less_start (Parse ?w)) dayEvents
      (sort_Slice ?w (less_start (Parse ?w)) dayEvents)"
    by (simp add: clockWorld_fetch sorted_dayEvents sortSlice_result_def)
      (simp add: dayEvents_def sortedDayEvents_def less_start_def st Before_def Second_def)
  have h7: "sortedDayEvents = sort_Slice ?w (less_start (Parse ?w)) dayEvents"
    by (simp add: clockWorld_fetch sorted_dayEvents)
  have h8: "0 < length sortedDayEvents"
    by (simp add: sortedDayEvents_def)
  have h9: "Before (clock ?w 0) (Add (startOf (Parse ?w) (sortedDayEvents ! 0)) (5 * Minute))"
    by (simp add: clockWorld_fetch sortedDayEvents_def st Before_def Add_def date_defs)
  have h10: "\<forall>j<0. \<not> Before (clock ?w j)
      (Add (startOf (Parse ?w) (sortedDayEvents ! j)) (5 * Minute))"
    by simp
  have h11: "Encode ?w
       \<lparr>Text = Format_15_04 (startOf (Parse ?w) (sortedDayEvents ! 0)) @ '' ''
                @ Summary (sortedDayEvents ! 0),
        Tooltip = concat (map (\<lambda>e. Format_15_04 (startOf (Parse ?w) e) @ '' '' @ Summary e
                                    @ [CHR 0x0A]) sortedDayEvents)\<rparr> = None"
    by (simp add: clockWorld_fetch)
  show ?thesis
    using tooltip_lists_every_event_in_start_order
      [OF clockWorld_fetch(1-5) h6 h7 h8 h9 h10 h11]
    by (simp add: clockWorld_fetch sortedDayEvents_def st format_defs Second_def)
qed

subsection \<open>The empty list\<close>

text \<open>
  Claim C8. When the service returns no event and the encoder can write to standard
  output, \<^verbatim>\<open>run\<close> writes one value, \<^verbatim>\<open>BarItem{Text: ""}\<close> with its tooltip left at the
  empty string, and returns nil; the process ends with status 0.
\<close>

theorem run_on_empty_list:
  assumes "readCredentials w = Value config" and "readToken w = (token, None)"
    and "NewService w config token = None"
    and "queryWindow (Now w) = (fromT, toT)" and "Events_List w calId fromT toT = Inr []"
    and srt: "sortSlice_result (less_start (Parse w)) []
                (sort_Slice w (less_start (Parse w)) [])"
    and enc: "Encode w \<lparr>Text = [], Tooltip = []\<rparr> = None"
  shows "run w calId = ([\<lparr>Text = [], Tooltip = []\<rparr>], Return None)
       \<and> main w (Run calId) = (0, None)"
proof -
  have e: "sort_Slice w (less_start (Parse w)) [] = []"
    using srt by (rule sortSlice_result_Nil)
  have r: "run w calId = ([\<lparr>Text = [], Tooltip = []\<rparr>], Return None)"
    using run_formats [OF assms(1-5)] enc by (simp add: e formatEvents_def)
  then show ?thesis
    by (simp add: main_def exitOf_def)
qed

theorem run_on_empty_list_witness:
  "run (demoWorld [] noon) ''primary'' = ([\<lparr>Text = [], Tooltip = []\<rparr>], Return None)
   \<and> main (demoWorld [] noon) (Run ''primary'') = (0, None)"
proof -
  let ?w = "demoWorld [] noon"
  have h1: "readCredentials ?w = Value (OAuth2Config ''client'')"
    by (simp add: world_defs)
  have h2: "readToken ?w =
      (\<lparr>AccessToken = ''access'', RefreshToken = ''refresh'', Expiry = zeroTime\<rparr>, None)"
    by (simp add: world_defs)
  have h3: "NewService ?w (OAuth2Config ''client'')
      \<lparr>AccessToken = ''access'', RefreshToken = ''refresh'', Expiry = zeroTime\<rparr> = None"
    by (simp add: world_defs)
  have h4: "queryWindow (Now ?w) = (fst (queryWindow noon), snd (queryWindow noon))"
    by (simp add: world_defs)
  have h5: "Events_List ?w ''primary'' (fst (queryWindow noon)) (snd (queryWindow noon)) = Inr []"
    by (simp add: world_defs)
  have h6: "sortSlice_result (less_start (Parse ?w)) [] (sort_Slice ?w (less_start (Parse ?w)) [])"
    by (simp add: demoWorld_def insertionSort_def sortSlice_result_def)
  have h7: "Encode ?w \<lparr>Text = [], Tooltip = []\<rparr> = None"
    by (simp add: demoWorld_def)
  show ?thesis
    using run_on_empty_list [OF h1 h2 h3 h4 h5 h6 h7] by simp
qed

subsection \<open>Timestamps that do not parse\<close>

lemma concat_lines_split:
  assumes "p < length ys"
  shows "concat (map f ys) = concat (map f (take p ys)) @ f (ys ! p) @ concat (map f (drop (Suc p) ys))"
proof -
  have "ys = take p ys @ ys ! p # drop (Suc p) ys"
    using assms by (rule id_take_nth_drop)
  then have "concat (map f ys) = concat (map f (take p ys @ ys ! p # drop (Suc p) ys))"
    by simp
  then show ?thesis
    by simp
qed

text \<open>
  Claim C10. Let \<open>e\<close> be a fetched event whose \<^verbatim>\<open>Start.DateTime\<close> the parser rejects (the
  empty string of an all-day event is one, see \<open>parse_empty\<close>). The error is dropped
  and the start of \<open>e\<close> is the zero time. In the slice \<open>ys\<close> that \<^verbatim>\<open>run\<close> formats, \<open>e\<close>
  stands before every event whose start is after the zero time. When \<^verbatim>\<open>run\<close> writes
  its value, the tooltip holds, at a position of \<open>e\<close> in \<open>ys\<close>, the line ``00:00'', a
  blank, the summary of \<open>e\<close> and a newline. When every clock reading is five minutes or
  more after the zero time, \<open>e\<close> is not the event the loop selects.
\<close>

theorem unparsable_start_counts_as_zero_time:
  assumes "readCredentials w = Value config" and "readToken w = (token, None)"
    and "NewService w config token = None"
    and "queryWindow (Now w) = (fromT, toT)" and "Events_List w calId fromT toT = Inr items"
    and srt: "sortSlice_result (less_start (Parse w)) items
                (sort_Slice w (less_start (Parse w)) items)"
    and ys: "ys = sort_Slice w (less_start (Parse w)) items"
    and e: "e \<in> set items"
    and bad: "Parse w (Start_DateTime e) = None"
  shows "startOf (Parse w) e = zeroTime
       \<and> (\<forall>p q. p < length ys \<and> q < length ys \<and> ys ! p = e
                 \<and> 0 < instant (startOf (Parse w) (ys ! q)) \<longrightarrow> p < q)
       \<and> (i < length ys
            \<and> Before (clock w i) (Add (startOf (Parse w) (ys ! i)) (5 * Minute))
            \<and> (\<forall>j<i. \<not> Before (clock w j) (Add (startOf (Parse w) (ys ! j)) (5 * Minute)))
            \<and> Encode w
                 \<lparr>Text = Format_15_04 (startOf (Parse w) (ys ! i)) @ '' '' @ Summary (ys ! i),
                  Tooltip = concat (map (eventLine (Parse w)) ys)\<rparr> = None
          \<longrightarrow> (\<exists>p<length ys. ys ! p = e
                \<and> run w calId =
                    ([\<lparr>Text = Format_15_04 (startOf (Parse w) (ys ! i)) @ '' '' @ Summary (ys ! i),
                       Tooltip = concat (map (eventLine (Parse w)) (take p ys))
                                 @ ''00:00 '' @ Summary e @ [CHR 0x0A]
                                 @ concat (map (eventLine (Parse w)) (drop (Suc p) ys))\<rparr>],
                     Return None)))
       \<and> ((\<forall>k. 5 * Minute \<le> instant (clock w k))
          \<longrightarrow> fst (scanEvents (Parse w) (clock w) 0 ys None []) \<noteq> Some e
            \<and> (i < length ys
                 \<and> Before (clock w i) (Add (startOf (Parse w) (ys ! i)) (5 * Minute))
               \<longrightarrow> ys ! i \<noteq> e))"
proof -
  have s: "sortSlice_result (less_start (Parse w)) items ys"
    using srt ys by simp
  have z: "startOf (Parse w) e = zeroTime"
    using bad by (simp add: startOf_def)
  have l: "eventLine (Parse w) e = ''00:00 '' @ Summary e @ [CHR 0x0A]"
    by (simp add: eventLine_def z Format_zeroTime)
  have ord: "p < q"
    if "p < length ys" "q < length ys" "ys ! p = e" "0 < instant (startOf (Parse w) (ys ! q))"
    for p q
  proof (rule ccontr)
    assume "\<not> p < q"
    then consider "q = p" | "q < p"
      by linarith
    then show False
    proof cases
      case 1
      then show ?thesis
        using that z by (simp add: zeroTime_def)
    next
      case 2
      have "sorted_wrt (\<lambda>a b. \<not> less_start (Parse w) b a) ys"
        using s by (simp add: sortSlice_result_def)
      then have "\<not> less_start (Parse w) (ys ! p) (ys ! q)"
        using 2 that(1) by (simp add: sorted_wrt_iff_nth_less)
      then show ?thesis
        using that z by (simp add: less_start_def Before_def zeroTime_def)
    qed
  qed
  have emit: "\<exists>p<length ys. ys ! p = e
       \<and> run w calId =
           ([\<lparr>Text = Format_15_04 (startOf (Parse w) (ys ! i)) @ '' '' @ Summary (ys ! i),
              Tooltip = concat (map (eventLine (Parse w)) (take p ys))
                        @ ''00:00 '' @ Summary e @ [CHR 0x0A]
                        @ concat (map (eventLine (Parse w)) (drop (Suc p) ys))\<rparr>],
            Return None)"
    if i: "i < length ys"
      and b: "Before (clock w i) (Add (startOf (Parse w) (ys ! i)) (5 * Minute))"
      and n: "\<forall>j<i. \<not> Before (clock w j) (Add (startOf (Parse w) (ys ! j)) (5 * Minute))"
      and enc: "Encode w
                 \<lparr>Text = Format_15_04 (startOf (Parse w) (ys ! i)) @ '' '' @ Summary (ys ! i),
                  Tooltip = concat (map (eventLine (Parse w)) ys)\<rparr> = None"
  proof -
    have "e \<in> set ys"
      using e sortSlice_result_set [OF s] by simp
    then obtain p where p: "p < length ys" "ys ! p = e"
      by (auto simp: in_set_conv_nth)
    have r: "run w calId =
        ([\<lparr>Text = Format_15_04 (startOf (Parse w) (ys ! i)) @ '' '' @ Summary (ys ! i),
           Tooltip = concat (map (eventLine (Parse w)) ys)\<rparr>], Return None)"
      unfolding run_formats [OF assms(1-5), folded ys] formatEvents_first [OF i b n]
      using enc by simp
    have "concat (map (eventLine (Parse w)) ys) =
        concat (map (eventLine (Parse w)) (take p ys))
        @ ''00:00 '' @ Summary e @ [CHR 0x0A]
        @ concat (map (eventLine (Parse w)) (drop (Suc p) ys))"
      using concat_lines_split [OF p(1), of "eventLine (Parse w)"] p(2) l by simp
    then show ?thesis
      using p r by auto
  qed
  have never: "fst (scanEvents (Parse w) (clock w) 0 ys None []) \<noteq> Some e"
    if "\<forall>k. 5 * Minute \<le> instant (clock w k)"
  proof
    assume "fst (scanEvents (Parse w) (clock w) 0 ys None []) = Some e"
    then obtain j where "Before (clock w j) (Add (startOf (Parse w) e) (5 * Minute))"
      using scanEvents_fst_Some by blast
    then show False
      using that [rule_format, of j] z by (simp add: Before_def Add_def zeroTime_def)
  qed
  have notsel: "ys ! i \<noteq> e"
    if "\<forall>k. 5 * Minute \<le> instant (clock w k)"
      and "Before (clock w i) (Add (startOf (Parse w) (ys ! i)) (5 * Minute))"
  proof
    assume "ys ! i = e"
    then show False
      using that(1) [rule_format, of i] that(2) z by (simp add: Before_def Add_def zeroTime_def)
  qed
  show ?thesis
    using z ord emit never notsel by blast
qed

theorem unparsable_start_counts_as_zero_time_witness:
  "run (clockWorld pastEvents (\<lambda>i. Date 2024 1 1 8 0 0 0)) ''primary'' =
     ([\<lparr>Text = ''09:00 Standup'',
        Tooltip = ''00:00 Holiday'' @ [CHR 0x0A] @ ''09:00 Standup'' @ [CHR 0x0A]\<rparr>],
      Return None)"
proof -
  let ?w = "clockWorld pastEvents (\<lambda>i. Date 2024 1 1 8 0 0 0)"
  let ?ys = "[event [] ''Holiday'', event ''2024-01-01T09:00:00Z'' ''Standup'']"
  note ev = startOf_examples Before_def Add_def zeroTime_def date_defs
  have h6: "sortSlice_result (less_start (Parse ?w)) pastEvents
      (sort_Slice ?w (less_start (Parse ?w)) pastEvents)"
    by (simp add: clockWorld_fetch sorted_pastEvents sortSlice_result_def)
      (simp add: pastEvents_def less_start_def ev)
  have h7: "?ys = sort_Slice ?w (less_start (Parse ?w)) pastEvents"
    by (simp add: clockWorld_fetch sorted_pastEvents)
  have h8: "event [] ''Holiday'' \<in> set pastEvents"
    by (simp add: pastEvents_def)
  have h9: "Parse ?w (Start_DateTime (event [] ''Holiday'')) = None"
    by (simp add: clockWorld_fetch event_fields parse_empty)
  have d: "event [] ''Holiday'' \<noteq> event ''2024-01-01T09:00:00Z'' ''Standup''"
    by (simp add: event_def)
  have h10: "1 < length ?ys
      \<and> Before (clock ?w 1) (Add (startOf (Parse ?w) (?ys ! 1)) (5 * Minute))
      \<and> (\<forall>j<1. \<not> Before (clock ?w j) (Add (startOf (Parse ?w) (?ys ! j)) (5 * Minute)))
      \<and> Encode ?w
           \<lparr>Text = Format_15_04 (startOf (Parse ?w) (?ys ! 1)) @ '' '' @ Summary (?ys ! 1),
            Tooltip = concat (map (eventLine (Parse ?w)) ?ys)\<rparr> = None"
    by (simp add: clockWorld_fetch ev)
  obtain p where p: "p < length ?ys" "?ys ! p = event [] ''Holiday''"
    and r: "run ?w ''primary'' =
      ([\<lparr>Text = Format_15_04 (startOf (Parse ?w) (?ys ! 1)) @ '' '' @ Summary (?ys ! 1),
         Tooltip = concat (map (eventLine (Parse ?w)) (take p ?ys))
                   @ ''00:00 '' @ Summary (event [] ''Holiday'') @ [CHR 0x0A]
                   @ concat (map (eventLine (Parse ?w)) (drop (Suc p) ?ys))\<rparr>],
       Return None)"
    using unparsable_start_counts_as_zero_time
      [OF clockWorld_fetch(1-5) h6 h7 h8 h9, where i = 1 and calId = "''primary''"] h10
    by blast
  have "p = 0"
    using p d by (cases p) (auto simp: less_Suc_eq)
  then show ?thesis
    using r by (simp add: clockWorld_fetch eventLine_def format_defs ev event_fields)
qed

subsection \<open>The window of the query\<close>




subsection \<open>Errors\<close>




subsection \<open>The authorization code\<close>

text \<open>
  Claim C5 asks for a second exchange, with the code typed at the second prompt. In the
  world where the stored token cannot be refreshed and the server rejects the first
  code, \<^verbatim>\<open>setup\<close> makes one exchange, reads the second code without exchanging it,
  writes the encoding of the nil token of the failed exchange (\<^verbatim>\<open>null\<close>) to
  \<^verbatim>\<open>token.json\<close> and returns nil.
\<close>

theorem setup_exchanges_only_once:
  "setup_cmd (demoWorld [] noon) =
     ([RefreshCall, PrintError (Err ''invalid_grant''), PrintAuthCodeURL, ScanCode,
       ExchangeCode ''bad'', ScanCode, WriteToken ''null''],
      Return None)"
  by (simp add: setup_cmd_def world_defs Valid_def authorize_def persistToken_def
      json_Marshal_def Before_def Add_def noon_def date_defs)

end
